theory Spec2Isabelle
  imports Main "HOL-Library.AList"
begin

section \<open>Constants and grid snapping\<close>

text \<open>
  Module constants of \<^verbatim>\<open>LUL_Layout_Manager.py\<close> (lines 13, 22-27).
\<close>

definition VERSION :: string where
  "VERSION = ''0.0.1''"

definition SUPPORTED_WIDGETS :: "string list" where
  "SUPPORTED_WIDGETS =
     [''Button'', ''Label'', ''Entry'', ''Text'', ''Checkbutton'',
      ''Radiobutton'', ''Scale'', ''Listbox'', ''Scrollbar'',
      ''Frame'', ''LabelFrame'', ''Combobox'', ''Progressbar'']"

definition GRID_SIZE :: int where
  "GRID_SIZE = 20"

text \<open>
  \<^verbatim>\<open>round(n / d)\<close> for integers \<open>n\<close> and \<open>d > 0\<close>: Python divides to a float and
  \<^verbatim>\<open>round\<close> takes the nearest integer, a tie going to the even neighbour. The
  model computes on the exact quotient; for \<open>d = 20\<close> the float quotient rounds the same
  way for every \<open>n\<close> below \<open>2^52\<close> in absolute value (a tie \<open>k + 1/2\<close> is a float, and
  any other quotient is at least \<open>1/20\<close> away from a tie), which covers every pixel
  coordinate the toolkit delivers.
\<close>

definition py_round_div :: "int \<Rightarrow> int \<Rightarrow> int" where
  "py_round_div n d =
     (let q = n div d; r = n mod d in
      if 2 * r < d then q
      else if d < 2 * r then q + 1
      else if even q then q else q + 1)"

text \<open>
  The snap expression \<^verbatim>\<open>round(v / GRID_SIZE) * GRID_SIZE\<close>, written out in
  \<^verbatim>\<open>on_drag\<close> (lines 116-117) and \<^verbatim>\<open>place_widget\<close> (lines 592-593).
\<close>

definition snap :: "int \<Rightarrow> int" where
  "snap v = py_round_div v GRID_SIZE * GRID_SIZE"

section \<open>The toolkit boundary\<close>

text \<open>
  The Tk widget a \<^verbatim>\<open>DraggableWidget\<close> wraps is toolkit state. The model keeps what the
  source reads and writes of it: its option store (\<^verbatim>\<open>keys()\<close>, \<^verbatim>\<open>cget\<close>,
  \<^verbatim>\<open>config\<close>), the items inserted into a listbox, and whether \<^verbatim>\<open>destroy()\<close> has been
  called. A destroyed widget has no options left: every later call on it raises
  \<^verbatim>\<open>TclError\<close>, which is the value \<open>None\<close> here.
\<close>

type_synonym options = "(string \<times> string) list"

datatype tk_widget =
    TkWidget (tk_options: options) (tk_items: "string list")
  | TkDestroyed

text \<open>
  The option table a widget class starts with is the toolkit's, not the repository's:
  it is a parameter, indexed by the widget type.
\<close>

type_synonym toolkit = "string \<Rightarrow> options"

definition tk_new :: "options \<Rightarrow> options \<Rightarrow> tk_widget" where
  "tk_new defaults given = TkWidget (fold (\<lambda>(k, v). AList.update k v) given defaults) []"

definition tk_keys :: "tk_widget \<Rightarrow> string list option" where
  "tk_keys w = (case w of TkWidget opts _ \<Rightarrow> Some (map fst opts) | TkDestroyed \<Rightarrow> None)"

definition tk_cget :: "tk_widget \<Rightarrow> string \<Rightarrow> string option" where
  "tk_cget w k = (case w of TkWidget opts _ \<Rightarrow> map_of opts k | TkDestroyed \<Rightarrow> None)"

definition tk_config :: "tk_widget \<Rightarrow> string \<Rightarrow> string \<Rightarrow> tk_widget option" where
  "tk_config w k v =
     (case w of
        TkWidget opts items \<Rightarrow>
          (if k \<in> set (map fst opts) then Some (TkWidget (AList.update k v opts) items)
           else None)
      | TkDestroyed \<Rightarrow> None)"

definition tk_insert_end :: "string \<Rightarrow> tk_widget \<Rightarrow> tk_widget" where
  "tk_insert_end item w =
     (case w of TkWidget opts items \<Rightarrow> TkWidget opts (items @ [item]) | TkDestroyed \<Rightarrow> TkDestroyed)"

definition tk_destroy :: "tk_widget \<Rightarrow> tk_widget" where
  "tk_destroy w = TkDestroyed"

text \<open>
  The expression \<^verbatim>\<open>w.cget(k) if k in w.keys() else d\<close> of \<^verbatim>\<open>_save_to_file\<close> and
  \<^verbatim>\<open>generate_python_code\<close>: \<open>None\<close> when \<^verbatim>\<open>keys()\<close> raises.
\<close>

definition cget_or :: "tk_widget \<Rightarrow> string \<Rightarrow> string \<Rightarrow> string option" where
  "cget_or w k d =
     (case tk_keys w of
        None \<Rightarrow> None
      | Some ks \<Rightarrow> if k \<in> set ks then tk_cget w k else Some d)"

subsection \<open>Canvas items\<close>

text \<open>
  The canvas holds one window item per placed widget, in stacking order. Of the item the
  source touches the coordinates (\<^verbatim>\<open>move\<close>), the \<^verbatim>\<open>width\<close> option
  (\<^verbatim>\<open>itemconfig\<close>) and the tag \<^verbatim>\<open>"widget"\<close>; the second, per-object tag of line 64 and
  the anchor are never read and are left out. Item ids are handed out by a counter and
  never reused.
\<close>

record canvas_item =
  item_x :: int
  item_y :: int
  item_width :: int
  item_tags :: "string list"
  item_window :: nat

type_synonym canvas_items = "(nat \<times> canvas_item) list"

definition canvas_delete :: "nat \<Rightarrow> canvas_items \<Rightarrow> canvas_items" where
  "canvas_delete i c = filter (\<lambda>(j, it). j \<noteq> i) c"

definition canvas_move :: "nat \<Rightarrow> int \<Rightarrow> int \<Rightarrow> canvas_items \<Rightarrow> canvas_items" where
  "canvas_move i dx dy c =
     map (\<lambda>(j, it). if j = i then (j, it\<lparr>item_x := item_x it + dx, item_y := item_y it + dy\<rparr>)
                     else (j, it)) c"

definition canvas_itemconfig_width :: "nat \<Rightarrow> int \<Rightarrow> canvas_items \<Rightarrow> canvas_items" where
  "canvas_itemconfig_width i w c =
     map (\<lambda>(j, it). if j = i then (j, it\<lparr>item_width := w\<rparr>) else (j, it)) c"

definition canvas_find_withtag :: "string \<Rightarrow> canvas_items \<Rightarrow> nat list" where
  "canvas_find_withtag t c = map fst (filter (\<lambda>(j, it). t \<in> set (item_tags it)) c)"

definition canvas_tag_raise :: "nat \<Rightarrow> canvas_items \<Rightarrow> canvas_items" where
  "canvas_tag_raise i c = filter (\<lambda>(j, it). j \<noteq> i) c @ filter (\<lambda>(j, it). j = i) c"

section \<open>The document state\<close>

text \<open>
  \<^verbatim>\<open>DraggableWidget\<close> objects are shared: \<^verbatim>\<open>GUIBuilder.widgets\<close> and the tuples on the
  undo and redo stacks hold references to the same objects. The model keeps the objects
  in a store indexed by reference; lists and actions hold references. The fields
  \<^verbatim>\<open>x\<close>, \<^verbatim>\<open>y\<close> and \<^verbatim>\<open>id\<close> are \<open>dw_x\<close>, \<open>dw_y\<close> and \<open>dw_id\<close>. The attributes
  \<^verbatim>\<open>start_x\<close> and \<^verbatim>\<open>start_y\<close> do not exist before the first \<^verbatim>\<open>on_start\<close>.
\<close>

record DraggableWidget =
  widget :: tk_widget
  widget_type :: string
  dw_x :: int
  dw_y :: int
  properties :: options
  selected :: bool
  original_x :: int
  original_y :: int
  start_x :: "int option"
  start_y :: "int option"
  dw_id :: nat

record event =
  ev_x :: int
  ev_y :: int

text \<open>The tuples pushed by \<^verbatim>\<open>push_undo\<close>: \<^verbatim>\<open>('create', dw)\<close>, \<^verbatim>\<open>('delete', dw)\<close>,
  \<^verbatim>\<open>('move', dw, old_x, old_y)\<close>.\<close>

datatype action =
    Create nat
  | Delete nat
  | Move nat int int

text \<open>
  The application state of \<^verbatim>\<open>GUIBuilder\<close> (lines 330-335) with the canvas. The stacks
  are Python lists: the top is the last element.
\<close>

record GUIBuilder =
  heap :: "nat \<Rightarrow> DraggableWidget"
  next_ref :: nat
  canvas :: canvas_items
  next_item :: nat
  active_widget :: "string option"
  widgets :: "nat list"
  current_file :: "string option"
  undo_stack :: "action list"
  redo_stack :: "action list"

definition blank_widget :: DraggableWidget where
  "blank_widget =
     \<lparr>widget = TkDestroyed, widget_type = [], dw_x = 0, dw_y = 0, properties = [],
      selected = False, original_x = 0, original_y = 0, start_x = None, start_y = None,
      dw_id = 0\<rparr>"

text \<open>\<^verbatim>\<open>GUIBuilder.__init__\<close>: nothing placed, nothing recorded.\<close>

definition init_builder :: GUIBuilder where
  "init_builder =
     \<lparr>heap = (\<lambda>r. blank_widget), next_ref = 0, canvas = [], next_item = 1,
      active_widget = None, widgets = [], current_file = None,
      undo_stack = [], redo_stack = []\<rparr>"

section \<open>DraggableWidget\<close>

text \<open>\<^verbatim>\<open>update_appearance\<close> (lines 93-99).\<close>

definition update_appearance :: "nat \<Rightarrow> GUIBuilder \<Rightarrow> GUIBuilder" where
  "update_appearance r s =
     (let dw = heap s r in
      s\<lparr>canvas := canvas_itemconfig_width (dw_id dw) (if selected dw then 2 else 1) (canvas s)\<rparr>)"

text \<open>
  \<^verbatim>\<open>DraggableWidget.__init__\<close> (lines 45-70), always called without \<^verbatim>\<open>properties\<close>:
  allocates the object and its canvas window. The event bindings and the context menu
  are wiring and are not state.
\<close>

definition new_DraggableWidget ::
  "tk_widget \<Rightarrow> string \<Rightarrow> int \<Rightarrow> int \<Rightarrow> GUIBuilder \<Rightarrow> nat \<times> GUIBuilder" where
  "new_DraggableWidget w wt x y s =
     (let r = next_ref s;
          i = next_item s;
          dw = \<lparr>widget = w, widget_type = wt, dw_x = x, dw_y = y, properties = [],
                selected = False, original_x = x, original_y = y,
                start_x = None, start_y = None, dw_id = i\<rparr>;
          s1 = s\<lparr>heap := (heap s)(r := dw), next_ref := Suc r,
                 canvas := canvas s @
                   [(i, \<lparr>item_x = x, item_y = y, item_width = 0,
                         item_tags = [''widget''], item_window = r\<rparr>)],
                 next_item := Suc i\<rparr>
      in (r, update_appearance r s1))"

text \<open>
  \<^verbatim>\<open>select\<close> (lines 146-152): the loop resets the \<^verbatim>\<open>width\<close> of every canvas item tagged
  \<^verbatim>\<open>"widget"\<close>, then this object's flag is set.
\<close>

definition select :: "nat \<Rightarrow> GUIBuilder \<Rightarrow> GUIBuilder" where
  "select r s =
     (let c1 = fold (\<lambda>item c. canvas_itemconfig_width item 1 c)
                 (canvas_find_withtag ''widget'' (canvas s)) (canvas s);
          s1 = s\<lparr>canvas := c1, heap := (heap s)(r := (heap s r)\<lparr>selected := True\<rparr>)\<rparr>;
          s2 = update_appearance r s1
      in s2\<lparr>canvas := canvas_tag_raise (dw_id (heap s2 r)) (canvas s2)\<rparr>)"


text \<open>\<^verbatim>\<open>push_undo\<close> (lines 825-827).\<close>

definition push_undo :: "action \<Rightarrow> GUIBuilder \<Rightarrow> GUIBuilder" where
  "push_undo a s = s\<lparr>undo_stack := undo_stack s @ [a], redo_stack := []\<rparr>"

text \<open>\<^verbatim>\<open>on_start\<close> (lines 101-107).\<close>

definition on_start :: "nat \<Rightarrow> event \<Rightarrow> GUIBuilder \<Rightarrow> GUIBuilder" where
  "on_start r e s =
     (let dw = heap s r;
          dw1 = dw\<lparr>start_x := Some (ev_x e), start_y := Some (ev_y e),
                   original_x := dw_x dw, original_y := dw_y dw\<rparr>
      in select r (s\<lparr>heap := (heap s)(r := dw1)\<rparr>))"

text \<open>
  \<^verbatim>\<open>on_drag\<close> (lines 109-125). Reading \<^verbatim>\<open>start_x\<close> before any \<^verbatim>\<open>on_start\<close> raises
  \<^verbatim>\<open>AttributeError\<close> before anything is written: the state is unchanged.
\<close>

definition on_drag :: "nat \<Rightarrow> event \<Rightarrow> GUIBuilder \<Rightarrow> GUIBuilder" where
  "on_drag r e s =
     (let dw = heap s r in
      case start_x dw of
        None \<Rightarrow> s
      | Some sx \<Rightarrow>
          (case start_y dw of
             None \<Rightarrow> s
           | Some sy \<Rightarrow>
               (let dx = ev_x e - sx;
                    dy = ev_y e - sy;
                    new_x = snap (dw_x dw + dx);
                    new_y = snap (dw_y dw + dy);
                    dx1 = new_x - dw_x dw;
                    dy1 = new_y - dw_y dw
                in if dx1 \<noteq> 0 \<or> dy1 \<noteq> 0
                   then s\<lparr>canvas := canvas_move (dw_id dw) dx1 dy1 (canvas s),
                          heap := (heap s)(r := dw\<lparr>dw_x := new_x, dw_y := new_y\<rparr>)\<rparr>
                   else s)))"

text \<open>\<^verbatim>\<open>on_release\<close> (lines 127-131).\<close>

definition on_release :: "nat \<Rightarrow> event \<Rightarrow> GUIBuilder \<Rightarrow> GUIBuilder" where
  "on_release r e s =
     (let s1 = update_appearance r s;
          dw = heap s1 r
      in if (dw_x dw, dw_y dw) \<noteq> (original_x dw, original_y dw)
         then push_undo (Move r (original_x dw) (original_y dw)) s1
         else s1)"

section \<open>PropertyEditor\<close>

text \<open>
  \<^verbatim>\<open>int(new_value)\<close> on the text of the edit field: surrounding blanks, an optional
  sign, then decimal digits. Anything else is a \<^verbatim>\<open>ValueError\<close>, the value \<open>None\<close>
  (Python also accepts underscores between digits and non-ASCII digits; the model
  rejects them).
\<close>

definition is_digit :: "char \<Rightarrow> bool" where
  "is_digit c = (c \<in> set ''0123456789'')"

definition digit_val :: "char \<Rightarrow> int" where
  "digit_val c = int (of_char c) - 48"

definition is_blank :: "char \<Rightarrow> bool" where
  "is_blank c = (c \<in> set [CHR '' '', CHR 0x09, CHR 0x0A, CHR 0x0B, CHR 0x0C, CHR 0x0D])"

definition strip :: "string \<Rightarrow> string" where
  "strip t = rev (dropWhile is_blank (rev (dropWhile is_blank t)))"

definition digits_val :: "string \<Rightarrow> int" where
  "digits_val ds = foldl (\<lambda>a c. 10 * a + digit_val c) 0 ds"

definition unsigned_int :: "string \<Rightarrow> int option" where
  "unsigned_int ds = (if ds \<noteq> [] \<and> list_all is_digit ds then Some (digits_val ds) else None)"

definition py_int :: "string \<Rightarrow> int option" where
  "py_int t =
     (case strip t of
        [] \<Rightarrow> None
      | c # ds \<Rightarrow>
          if c = CHR ''-'' then map_option uminus (unsigned_int ds)
          else if c = CHR ''+'' then unsigned_int ds
          else unsigned_int (c # ds))"

text \<open>
  \<^verbatim>\<open>update_property\<close> (lines 264-289) on the editor of widget \<open>r\<close>. \<open>prop\<close> is the
  selected row of the property tree (\<open>None\<close>: no selection) and \<open>new_value\<close> the text of
  the edit field. Every exception of the \<^verbatim>\<open>try\<close> block is raised before the first
  write, so the failing branches return the state as it was. The tree view itself is
  display only.
\<close>

definition update_property :: "nat \<Rightarrow> string option \<Rightarrow> string \<Rightarrow> GUIBuilder \<Rightarrow> GUIBuilder" where
  "update_property r sel new_value s =
     (case sel of
        None \<Rightarrow> s
      | Some prop \<Rightarrow>
          (let dw = heap s r in
           if prop = ''x'' then
             (case py_int new_value of
                None \<Rightarrow> s
              | Some v \<Rightarrow>
                  s\<lparr>canvas := canvas_move (dw_id dw) (v - dw_x dw) 0 (canvas s),
                    heap := (heap s)(r := dw\<lparr>dw_x := v\<rparr>)\<rparr>)
           else if prop = ''y'' then
             (case py_int new_value of
                None \<Rightarrow> s
              | Some v \<Rightarrow>
                  s\<lparr>canvas := canvas_move (dw_id dw) 0 (v - dw_y dw) (canvas s),
                    heap := (heap s)(r := dw\<lparr>dw_y := v\<rparr>)\<rparr>)
           else
             (case tk_config (widget dw) prop new_value of
                None \<Rightarrow> s
              | Some w \<Rightarrow> s\<lparr>heap := (heap s)(r := dw\<lparr>widget := w\<rparr>)\<rparr>)))"

section \<open>GUIBuilder\<close>

text \<open>\<^verbatim>\<open>select_widget\<close> (lines 571-573): a toolbox button arms a widget type.\<close>

definition select_widget :: "string \<Rightarrow> GUIBuilder \<Rightarrow> GUIBuilder" where
  "select_widget wt s = s\<lparr>active_widget := Some wt\<rparr>"

text \<open>
  The constructor chain of \<^verbatim>\<open>place_widget\<close> (lines 599-627), in the source's order.
  No branch matching leaves \<^verbatim>\<open>widget = None\<close>. Option values are strings;
  \<^verbatim>\<open>step(50)\<close> on the progress bar is written as its \<^verbatim>\<open>value\<close> option.
\<close>

definition make_widget :: "toolkit \<Rightarrow> string \<Rightarrow> tk_widget option" where
  "make_widget tk wt =
     (if wt = ''Button'' then Some (tk_new (tk wt) [(''text'', ''Button'')])
      else if wt = ''Label'' then Some (tk_new (tk wt) [(''text'', ''Label'')])
      else if wt = ''Entry'' then Some (tk_new (tk wt) [])
      else if wt = ''Text'' then Some (tk_new (tk wt) [(''width'', ''30''), (''height'', ''5'')])
      else if wt = ''Checkbutton'' then Some (tk_new (tk wt) [(''text'', ''Checkbutton'')])
      else if wt = ''Radiobutton'' then Some (tk_new (tk wt) [(''text'', ''Radiobutton'')])
      else if wt = ''Scale'' then Some (tk_new (tk wt) [(''from'', ''0''), (''to'', ''100'')])
      else if wt = ''Listbox'' then
        Some (fold tk_insert_end [''Item 1'', ''Item 2'', ''Item 3'']
                (tk_new (tk wt) [(''height'', ''4'')]))
      else if wt = ''Scrollbar'' then Some (tk_new (tk wt) [])
      else if wt = ''Frame'' then
        Some (tk_new (tk wt) [(''width'', ''200''), (''height'', ''200''), (''relief'', ''ridge'')])
      else if wt = ''LabelFrame'' then
        Some (tk_new (tk wt) [(''text'', ''LabelFrame''), (''width'', ''200''), (''height'', ''200'')])
      else if wt = ''Combobox'' then
        Some (tk_new (tk wt) [(''values'', ''{Option 1} {Option 2} {Option 3}'')])
      else if wt = ''Progressbar'' then
        Some (tk_new (tk wt) [(''length'', ''200''), (''mode'', ''determinate''), (''value'', ''50'')])
      else None)"

text \<open>
  \<^verbatim>\<open>place_widget\<close> (lines 587-643). \<^verbatim>\<open>not self.active_widget\<close> holds for \<^verbatim>\<open>None\<close> and
  for the empty string. The constructors are called with literal options only, so the
  \<^verbatim>\<open>except\<close> branch is not reached from data of the document.
\<close>

definition place_widget :: "toolkit \<Rightarrow> int \<Rightarrow> int \<Rightarrow> GUIBuilder \<Rightarrow> GUIBuilder" where
  "place_widget tk x y s =
     (case active_widget s of
        None \<Rightarrow> s
      | Some wt \<Rightarrow>
          if wt = [] then s
          else
            (let x1 = snap x;
                 y1 = snap y
             in case make_widget tk wt of
                  None \<Rightarrow> s
                | Some w \<Rightarrow>
                    (let (r, s1) = new_DraggableWidget w wt x1 y1 s;
                         s2 = s1\<lparr>widgets := widgets s1 @ [r]\<rparr>;
                         s3 = push_undo (Create r) s2
                     in s3\<lparr>active_widget := None\<rparr>)))"

text \<open>\<^verbatim>\<open>clear_canvas\<close> (lines 663-669).\<close>

definition clear_canvas :: "GUIBuilder \<Rightarrow> GUIBuilder" where
  "clear_canvas s =
     (fold (\<lambda>r t. t\<lparr>canvas := canvas_delete (dw_id (heap t r)) (canvas t),
                     heap := (heap t)(r := (heap t r)\<lparr>widget := tk_destroy (widget (heap t r))\<rparr>)\<rparr>)
        (widgets s) s)
     \<lparr>widgets := [], undo_stack := [], redo_stack := []\<rparr>"

text \<open>
  \<^verbatim>\<open>new_project\<close> (lines 655-661); \<open>answer\<close> is what the confirmation dialog returns
  (it is only asked when there are widgets).
\<close>

definition new_project :: "bool \<Rightarrow> GUIBuilder \<Rightarrow> GUIBuilder" where
  "new_project answer s =
     (if widgets s \<noteq> [] \<and> \<not> answer then s
      else (clear_canvas s)\<lparr>current_file := None\<rparr>)"

section \<open>Persistence\<close>

text \<open>
  One element of the file's \<^verbatim>\<open>widgets\<close> array, with the fields of the \<^verbatim>\<open>WidgetData\<close>
  dataclass (lines 36-42) that \<^verbatim>\<open>_save_to_file\<close> writes and \<^verbatim>\<open>load_widget\<close> reads. The
  model takes the file as parsed into this shape (a missing \<^verbatim>\<open>properties\<close> key is the
  empty list).
\<close>

record WidgetData =
  wd_type :: string
  wd_x :: int
  wd_y :: int
  wd_properties :: options

record document =
  doc_version :: string
  doc_widgets :: "WidgetData list"

datatype error = OpenFailed | SaveFailed | ExportFailed

text \<open>What \<^verbatim>\<open>open\<close> and \<^verbatim>\<open>json.load\<close> give back for the chosen path.\<close>

datatype read_result = ReadFailed | ReadOk document

text \<open>
  \<^verbatim>\<open>load_widget\<close> (lines 694-710): arms the type, places, then applies the properties to
  the last element of \<^verbatim>\<open>self.widgets\<close>, skipping every option the toolkit rejects.
\<close>

definition apply_property :: "string \<times> string \<Rightarrow> tk_widget \<Rightarrow> tk_widget" where
  "apply_property kv w = (case tk_config w (fst kv) (snd kv) of None \<Rightarrow> w | Some w1 \<Rightarrow> w1)"

definition load_widget :: "toolkit \<Rightarrow> WidgetData \<Rightarrow> GUIBuilder \<Rightarrow> GUIBuilder" where
  "load_widget tk widget_data s =
     (let s1 = place_widget tk (wd_x widget_data) (wd_y widget_data)
                 (s\<lparr>active_widget := Some (wd_type widget_data)\<rparr>)
      in if widgets s1 = [] then s1
         else
           (let r = last (widgets s1);
                dw = heap s1 r
            in s1\<lparr>heap := (heap s1)
                  (r := dw\<lparr>widget := fold apply_property (wd_properties widget_data) (widget dw)\<rparr>)\<rparr>))"

text \<open>
  \<^verbatim>\<open>open_project\<close> (lines 671-692). \<open>file_path\<close> is the dialog's answer (empty: cancelled)
  and \<open>rd\<close> the outcome of reading and parsing that file. The first component of the
  result is the error the \<^verbatim>\<open>except\<close> branch reports, if any.
\<close>

definition open_project ::
  "toolkit \<Rightarrow> string \<Rightarrow> read_result \<Rightarrow> GUIBuilder \<Rightarrow> error option \<times> GUIBuilder" where
  "open_project tk file_path rd s =
     (if file_path = [] then (None, s)
      else
        (case rd of
           ReadFailed \<Rightarrow> (Some OpenFailed, s)
         | ReadOk data \<Rightarrow>
             (None, fold (load_widget tk) (doc_widgets data)
                      ((clear_canvas s)\<lparr>current_file := Some file_path\<rparr>))))"

text \<open>
  \<^verbatim>\<open>_save_to_file\<close> (lines 729-758): the record handed to \<^verbatim>\<open>json.dump\<close>, or the error of
  the \<^verbatim>\<open>except\<close> branch when a toolkit call raises. The builder's state is not written.
\<close>

definition save_widget :: "DraggableWidget \<Rightarrow> WidgetData option" where
  "save_widget dw =
     (case cget_or (widget dw) ''text'' [] of
        None \<Rightarrow> None
      | Some t \<Rightarrow>
     (case cget_or (widget dw) ''width'' [] of
        None \<Rightarrow> None
      | Some w \<Rightarrow>
     (case cget_or (widget dw) ''height'' [] of
        None \<Rightarrow> None
      | Some h \<Rightarrow>
     (case cget_or (widget dw) ''bg'' [] of
        None \<Rightarrow> None
      | Some b \<Rightarrow>
     (case cget_or (widget dw) ''fg'' [] of
        None \<Rightarrow> None
      | Some f \<Rightarrow>
          Some \<lparr>wd_type = widget_type dw, wd_x = dw_x dw, wd_y = dw_y dw,
                wd_properties =
                  [(''text'', t), (''width'', w), (''height'', h),
                   (''background'', b), (''foreground'', f)]\<rparr>)))))"

fun save_widgets :: "DraggableWidget list \<Rightarrow> WidgetData list option" where
  "save_widgets [] = Some []"
| "save_widgets (dw # dws) =
     (case save_widget dw of
        None \<Rightarrow> None
      | Some wd \<Rightarrow> (case save_widgets dws of None \<Rightarrow> None | Some wds \<Rightarrow> Some (wd # wds)))"

definition save_to_file :: "GUIBuilder \<Rightarrow> error + document" where
  "save_to_file s =
     (case save_widgets (map (heap s) (widgets s)) of
        None \<Rightarrow> Inl SaveFailed
      | Some wds \<Rightarrow> Inr \<lparr>doc_version = VERSION, doc_widgets = wds\<rparr>)"

section \<open>Code generation\<close>

text \<open>Python's \<^verbatim>\<open>str\<close> of an integer, as the f-strings format \<^verbatim>\<open>i\<close>, \<^verbatim>\<open>dw.x\<close>, \<^verbatim>\<open>dw.y\<close>.\<close>

definition digit_char :: "nat \<Rightarrow> char" where
  "digit_char n = ''0123456789'' ! n"

fun str_nat :: "nat \<Rightarrow> string" where
  "str_nat n = (if n < 10 then [digit_char n] else str_nat (n div 10) @ [digit_char (n mod 10)])"

definition str_int :: "int \<Rightarrow> string" where
  "str_int i = (if i < 0 then CHR ''-'' # str_nat (nat (- i)) else str_nat (nat i))"

definition quote :: string where
  "quote = [CHR 0x27]"

text \<open>\<^verbatim>\<open>"\n".join(code)\<close>.\<close>

fun join_lines :: "string list \<Rightarrow> string" where
  "join_lines [] = []"
| "join_lines [l] = l"
| "join_lines (l # ls) = l @ CHR 0x0A # join_lines ls"

text \<open>
  The body of the loop of \<^verbatim>\<open>generate_python_code\<close> (lines 791-805) for the widget at
  index \<open>i\<close>: the lines it appends, or \<open>None\<close> when the toolkit call raises.
\<close>

definition place_line :: "string \<Rightarrow> DraggableWidget \<Rightarrow> string" where
  "place_line var_name dw =
     ''    '' @ var_name @ ''.place(x='' @ str_int (dw_x dw) @ '', y='' @ str_int (dw_y dw) @ '')''"

definition widget_lines :: "nat \<Rightarrow> DraggableWidget \<Rightarrow> string list option" where
  "widget_lines i dw =
     (let var_name = ''widget_'' @ str_nat i in
      if widget_type dw = ''Button'' then
        (case cget_or (widget dw) ''text'' ''Button'' of
           None \<Rightarrow> None
         | Some t \<Rightarrow>
             Some [''    '' @ var_name @ '' = ttk.Button(root, text='' @ quote @ t @ quote @ '')'',
                   place_line var_name dw, []])
      else if widget_type dw = ''Label'' then
        (case cget_or (widget dw) ''text'' ''Label'' of
           None \<Rightarrow> None
         | Some t \<Rightarrow>
             Some [''    '' @ var_name @ '' = ttk.Label(root, text='' @ quote @ t @ quote @ '')'',
                   place_line var_name dw, []])
      else if widget_type dw = ''Entry'' then
        Some [''    '' @ var_name @ '' = ttk.Entry(root)'', place_line var_name dw, []]
      else Some [place_line var_name dw, []])"

fun widgets_lines :: "nat \<Rightarrow> DraggableWidget list \<Rightarrow> string list option" where
  "widgets_lines i [] = Some []"
| "widgets_lines i (dw # dws) =
     (case widget_lines i dw of
        None \<Rightarrow> None
      | Some ls \<Rightarrow>
          (case widgets_lines (Suc i) dws of None \<Rightarrow> None | Some rest \<Rightarrow> Some (ls @ rest)))"

definition prologue :: "string list" where
  "prologue =
     [''import tkinter as tk'',
      ''from tkinter import ttk'',
      [],
      ''def create_gui():'',
      ''    root = tk.Tk()'',
      ''    root.title('' @ quote @ ''Generated GUI'' @ quote @ '')'',
      []]"

definition epilogue :: "string list" where
  "epilogue =
     [''    root.mainloop()'',
      [],
      ''if __name__ == '' @ quote @ ''__main__'' @ quote @ '':'',
      ''    create_gui()'']"

text \<open>\<^verbatim>\<open>generate_python_code\<close> (lines 779-812): the list \<^verbatim>\<open>code\<close> before the join, and
  the text returned.\<close>

definition generated_lines :: "GUIBuilder \<Rightarrow> string list option" where
  "generated_lines s =
     (case widgets_lines 0 (map (heap s) (widgets s)) of
        None \<Rightarrow> None
      | Some body \<Rightarrow> Some (prologue @ body @ epilogue))"

definition generate_python_code :: "GUIBuilder \<Rightarrow> string option" where
  "generate_python_code s = map_option join_lines (generated_lines s)"

section \<open>Deletion and the command history\<close>

text \<open>
  The three statements \<^verbatim>\<open>canvas.delete(dw.id)\<close>, \<^verbatim>\<open>dw.widget.destroy()\<close>,
  \<^verbatim>\<open>self.widgets.remove(dw)\<close> shared by \<^verbatim>\<open>delete_selected\<close>, the create branch of
  \<^verbatim>\<open>undo\<close> and the delete branch of \<^verbatim>\<open>redo\<close>. \<^verbatim>\<open>list.remove\<close> takes out the first
  occurrence; on an absent object it raises after the other two writes and leaves the
  list as it was, which is what \<open>remove1\<close> returns.

  \<^verbatim>\<open>delete_selected\<close> (lines 814-823) runs them for every selected widget, after
  recording the deletion.
\<close>

definition destroy_window :: "nat \<Rightarrow> GUIBuilder \<Rightarrow> GUIBuilder" where
  "destroy_window r s =
     (let dw = heap s r
      in s\<lparr>canvas := canvas_delete (dw_id dw) (canvas s),
           heap := (heap s)(r := dw\<lparr>widget := tk_destroy (widget dw)\<rparr>),
           widgets := remove1 r (widgets s)\<rparr>)"

definition delete_one :: "nat \<Rightarrow> GUIBuilder \<Rightarrow> GUIBuilder" where
  "delete_one r s = destroy_window r (push_undo (Delete r) s)"

definition delete_selected :: "GUIBuilder \<Rightarrow> GUIBuilder" where
  "delete_selected s =
     (let sel = filter (\<lambda>r. selected (heap s r)) (widgets s) in
      if sel = [] then s else fold delete_one sel s)"

text \<open>
  \<^verbatim>\<open>undo\<close> (lines 829-850) and \<^verbatim>\<open>redo\<close> (lines 852-873). \<^verbatim>\<open>create_window\<close> is taken to
  accept any window and to return a fresh item id.
\<close>

definition create_window :: "nat \<Rightarrow> GUIBuilder \<Rightarrow> GUIBuilder" where
  "create_window r s =
     (let dw = heap s r;
          i = next_item s
      in s\<lparr>canvas := canvas s @
             [(i, \<lparr>item_x = dw_x dw, item_y = dw_y dw, item_width = 0,
                   item_tags = [], item_window = r\<rparr>)],
           next_item := Suc i,
           heap := (heap s)(r := dw\<lparr>dw_id := i\<rparr>)\<rparr>)"

definition undo :: "GUIBuilder \<Rightarrow> GUIBuilder" where
  "undo s =
     (if undo_stack s = [] then s
      else
        (let a = last (undo_stack s);
             s1 = s\<lparr>undo_stack := butlast (undo_stack s), redo_stack := redo_stack s @ [a]\<rparr>
         in case a of
              Create r \<Rightarrow> destroy_window r s1
            | Delete r \<Rightarrow> create_window r (s1\<lparr>widgets := widgets s1 @ [r]\<rparr>)
            | Move r old_x old_y \<Rightarrow>
                (let dw = heap s1 r;
                     dx = old_x - dw_x dw;
                     dy = old_y - dw_y dw
                 in s1\<lparr>canvas := canvas_move (dw_id dw) dx dy (canvas s1),
                       heap := (heap s1)(r := dw\<lparr>dw_x := old_x, dw_y := old_y\<rparr>)\<rparr>)))"

definition redo :: "GUIBuilder \<Rightarrow> GUIBuilder" where
  "redo s =
     (if redo_stack s = [] then s
      else
        (let a = last (redo_stack s);
             s1 = s\<lparr>redo_stack := butlast (redo_stack s), undo_stack := undo_stack s @ [a]\<rparr>
         in case a of
              Create r \<Rightarrow> create_window r (s1\<lparr>widgets := widgets s1 @ [r]\<rparr>)
            | Delete r \<Rightarrow> destroy_window r s1
            | Move r old_x old_y \<Rightarrow>
                (let dw = heap s1 r;
                     dx = dw_x dw - old_x;
                     dy = dw_y dw - old_y
                 in s1\<lparr>canvas := canvas_move (dw_id dw) dx dy (canvas s1),
                       heap := (heap s1)(r := dw\<lparr>dw_x := old_x, dw_y := old_y\<rparr>)\<rparr>)))"

section \<open>Sessions and sample documents\<close>

text \<open>
  A drag session as the toolkit delivers it to one widget: a button press, any number of
  motion events, a button release.
\<close>

definition drag_session ::
  "nat \<Rightarrow> event \<Rightarrow> event list \<Rightarrow> event \<Rightarrow> GUIBuilder \<Rightarrow> GUIBuilder" where
  "drag_session r down moves up s =
     on_release r up (fold (on_drag r) moves (on_start r down s))"

text \<open>
  Sample inputs: a toolkit whose classes have no options beyond those the constructors
  are given; a button placed at raw (23, 57) and a label at (100, 100); the button
  dragged by two motion events; a button whose text was edited and which is selected.
\<close>

definition demo_toolkit :: toolkit where
  "demo_toolkit = (\<lambda>wt. [])"

definition one_placed :: GUIBuilder where
  "one_placed = place_widget demo_toolkit 23 57 (select_widget ''Button'' init_builder)"

definition two_placed :: GUIBuilder where
  "two_placed = place_widget demo_toolkit 100 100 (select_widget ''Label'' one_placed)"

definition dragged :: GUIBuilder where
  "dragged =
     drag_session 0 \<lparr>ev_x = 0, ev_y = 0\<rparr> [\<lparr>ev_x = 5, ev_y = 3\<rparr>, \<lparr>ev_x = 45, ev_y = 3\<rparr>]
       \<lparr>ev_x = 45, ev_y = 3\<rparr> two_placed"

definition edited :: GUIBuilder where
  "edited = select 0 (update_property 0 (Some ''text'') ''OK'' one_placed)"

text \<open>
  What a document shows of its widgets, in sequence order: type and position. And what
  a load makes of the entries of a file: one widget per entry of a supported type, at
  the snapped position.
\<close>

definition layout :: "GUIBuilder \<Rightarrow> (string \<times> int \<times> int) list" where
  "layout s = map (\<lambda>r. (widget_type (heap s r), dw_x (heap s r), dw_y (heap s r))) (widgets s)"

definition loaded_layout :: "WidgetData list \<Rightarrow> (string \<times> int \<times> int) list" where
  "loaded_layout es =
     map (\<lambda>e. (wd_type e, snap (wd_x e), snap (wd_y e)))
       (filter (\<lambda>e. wd_type e \<in> set SUPPORTED_WIDGETS) es)"

text \<open>Every object of the document has been allocated.\<close>

definition refs_allocated :: "GUIBuilder \<Rightarrow> bool" where
  "refs_allocated s = list_all (\<lambda>r. r < next_ref s) (widgets s)"

text \<open>
  A file with a label and an entry of a type outside the enumeration; the sample button
  after its \<^verbatim>\<open>x\<close> was typed as 23 in the property editor, and the file saving it writes.
\<close>

definition mixed_doc :: document where
  "mixed_doc =
     \<lparr>doc_version = ''0.0.1'',
      doc_widgets =
        [\<lparr>wd_type = ''Label'', wd_x = 40, wd_y = 40, wd_properties = []\<rparr>,
         \<lparr>wd_type = ''Gauge'', wd_x = 0, wd_y = 0, wd_properties = [(''text'', ''x'')]\<rparr>]\<rparr>"



text \<open>A text widget placed at raw (23, 57).\<close>

definition text_placed :: GUIBuilder where
  "text_placed = place_widget demo_toolkit 23 57 (select_widget ''Text'' init_builder)"

section \<open>Reachable states\<close>







section \<open>Evaluation\<close>

lemmas model_defs =
  demo_toolkit_def init_builder_def blank_widget_def select_widget_def place_widget_def
  make_widget_def new_DraggableWidget_def update_appearance_def push_undo_def
  drag_session_def on_start_def on_drag_def on_release_def select_def undo_def redo_def
  delete_selected_def delete_one_def destroy_window_def create_window_def
  update_property_def
  tk_new_def tk_config_def tk_cget_def tk_keys_def tk_destroy_def cget_or_def
  canvas_itemconfig_width_def canvas_find_withtag_def canvas_tag_raise_def
  canvas_move_def canvas_delete_def
  snap_def py_round_div_def GRID_SIZE_def Let_def

lemmas load_defs =
  open_project_def load_widget_def clear_canvas_def apply_property_def layout_def
  save_to_file_def save_widget_def VERSION_def
  py_int_def strip_def unsigned_int_def digits_val_def digit_val_def is_digit_def is_blank_def

lemmas sample_defs = one_placed_def two_placed_def

section \<open>Properties of grid snapping\<close>


lemma snap_of_multiple: "snap (k * GRID_SIZE) = k * GRID_SIZE"
  by (simp add: snap_def py_round_div_def GRID_SIZE_def Let_def)

text \<open>
  C9: snapping is idempotent and every snapped value is an exact multiple of the grid
  unit, for every integer coordinate.
\<close>

theorem snap_idempotent_multiple:
  "snap (snap v) = snap v \<and> snap v mod GRID_SIZE = 0"
proof
  have "snap v = py_round_div v GRID_SIZE * GRID_SIZE"
    by (simp add: snap_def)
  then show "snap (snap v) = snap v"
    by (simp add: snap_of_multiple)
  show "snap v mod GRID_SIZE = 0"
    by (simp add: snap_def)
qed

section \<open>Selection\<close>

lemma select_heap:
  "heap (select r s) = (heap s)(r := (heap s r)\<lparr>selected := True\<rparr>)"
  by (simp add: select_def update_appearance_def Let_def)


text \<open>
  C2: the claim says that after \<open>select(w)\<close> the flag of every other widget is false. The
  loop of \<^verbatim>\<open>select\<close> only resets canvas item widths: the flag of \<open>r\<close> is set and the flag
  of every other object is what it was before.
\<close>

theorem select_keeps_other_flags:
  assumes "q \<noteq> r"
  shows "selected (heap (select r s) r) \<and>
         selected (heap (select r s) q) = selected (heap s q)"
  using assms by (simp add: select_heap)

text \<open>Selecting the button and then the label leaves both selected.\<close>

theorem select_keeps_other_flags_witness:
  "(0::nat) \<noteq> 1 \<and> widgets (select 1 (select 0 two_placed)) = [0, 1] \<and>
   selected (heap (select 1 (select 0 two_placed)) 1) \<and>
   selected (heap (select 1 (select 0 two_placed)) 0)"
proof -
  have ne: "(0::nat) \<noteq> 1"
    by simp
  have first: "selected (heap (select 0 two_placed) 0)"
    by (simp add: select_heap)
  have doc: "widgets (select 1 (select 0 two_placed)) = [0, 1]"
    by (simp add: sample_defs model_defs)
  from select_keeps_other_flags [OF ne, of "select 0 two_placed"] first doc show ?thesis
    by simp
qed

section \<open>Drag sessions\<close>










section \<open>Undo and redo\<close>

text \<open>
  C1: the claim says that undo followed by redo of a move leaves the widget at the drag's
  end position. The tuple holds only the position at the start of the drag, and both
  \<^verbatim>\<open>undo\<close> and \<^verbatim>\<open>redo\<close> assign it: after undo and after undo then redo the widget is at
  the start position.
\<close>

theorem undo_redo_move_returns_to_start:
  assumes "undo_stack s = st @ [Move r p_x p_y]"
  shows "dw_x (heap (undo s) r) = p_x \<and> dw_y (heap (undo s) r) = p_y \<and>
         dw_x (heap (redo (undo s)) r) = p_x \<and> dw_y (heap (redo (undo s)) r) = p_y"
  using assms by (simp add: undo_def redo_def Let_def)

text \<open>The button dragged from (20, 60) to (60, 60) is at (20, 60) after undo and redo.\<close>

theorem undo_redo_move_witness:
  "undo_stack dragged = [Create 0, Create 1] @ [Move 0 20 60] \<and>
   (dw_x (heap dragged 0), dw_y (heap dragged 0)) = (60, 60) \<and>
   (dw_x (heap (undo dragged) 0), dw_y (heap (undo dragged) 0)) = (20, 60) \<and>
   (dw_x (heap (redo (undo dragged)) 0), dw_y (heap (redo (undo dragged)) 0)) = (20, 60)"
proof -
  have stack: "undo_stack dragged = [Create 0, Create 1] @ [Move 0 20 60]"
    by (simp add: dragged_def sample_defs model_defs)
  have pos: "(dw_x (heap dragged 0), dw_y (heap dragged 0)) = (60, 60)"
    by (simp add: dragged_def sample_defs model_defs)
  from undo_redo_move_returns_to_start [OF stack] stack pos show ?thesis
    by simp
qed

lemma delete_selected_single:
  assumes "filter (\<lambda>q. selected (heap s q)) (widgets s) = [r]"
  shows "delete_selected s = delete_one r s"
  using assms by (simp add: delete_selected_def)

text \<open>
  C4: the claim says that undoing a deletion restores the widget with the position and
  the properties it had. \<^verbatim>\<open>delete_selected\<close> destroys the toolkit widget, and the delete
  branch of \<^verbatim>\<open>undo\<close> puts the same object back: it returns to the document (at the end
  of the sequence) with its position, and its toolkit widget is the destroyed one, with
  no option left to read.
\<close>

theorem delete_undo_widget_destroyed:
  assumes "filter (\<lambda>q. selected (heap s q)) (widgets s) = [r]"
  shows "widgets (undo (delete_selected s)) = remove1 r (widgets s) @ [r] \<and>
         dw_x (heap (undo (delete_selected s)) r) = dw_x (heap s r) \<and>
         dw_y (heap (undo (delete_selected s)) r) = dw_y (heap s r) \<and>
         widget (heap (undo (delete_selected s)) r) = TkDestroyed \<and>
         tk_cget (widget (heap (undo (delete_selected s)) r)) k = None"
  by (simp add: delete_selected_single [OF assms] delete_one_def destroy_window_def
      push_undo_def undo_def create_window_def tk_destroy_def tk_cget_def Let_def)

text \<open>
  A button whose text was edited to \<open>OK\<close>: after deletion and undo it is back at (20, 60)
  and its text cannot be read.
\<close>

theorem delete_undo_widget_destroyed_witness:
  "filter (\<lambda>q. selected (heap edited q)) (widgets edited) = [0] \<and>
   tk_cget (widget (heap edited 0)) ''text'' = Some ''OK'' \<and>
   widgets (undo (delete_selected edited)) = [0] \<and>
   (dw_x (heap (undo (delete_selected edited)) 0), dw_y (heap (undo (delete_selected edited)) 0))
     = (20, 60) \<and>
   tk_cget (widget (heap (undo (delete_selected edited)) 0)) ''text'' = None"
proof -
  have sel: "filter (\<lambda>q. selected (heap edited q)) (widgets edited) = [0]"
    by (simp add: edited_def sample_defs model_defs)
  have before: "tk_cget (widget (heap edited 0)) ''text'' = Some ''OK''"
    by (simp add: edited_def sample_defs model_defs)
  have doc: "widgets edited = [0]" "dw_x (heap edited 0) = 20" "dw_y (heap edited 0) = 60"
    by (simp_all add: edited_def sample_defs model_defs)
  from delete_undo_widget_destroyed [OF sel, of "''text''"] sel before doc show ?thesis
    by (simp add: tk_cget_def)
qed

section \<open>Loading a file\<close>

lemma make_widget_supported:
  "wt \<in> set SUPPORTED_WIDGETS \<Longrightarrow> \<exists>w. make_widget tk wt = Some w"
  by (auto simp add: make_widget_def SUPPORTED_WIDGETS_def)

lemma make_widget_unsupported:
  "wt \<notin> set SUPPORTED_WIDGETS \<Longrightarrow> make_widget tk wt = None"
  by (simp add: make_widget_def SUPPORTED_WIDGETS_def)

lemma supported_not_empty: "wt \<in> set SUPPORTED_WIDGETS \<Longrightarrow> wt \<noteq> []"
  by (auto simp add: SUPPORTED_WIDGETS_def)

lemma place_widget_unsupported:
  assumes "active_widget s = Some wt" "wt \<notin> set SUPPORTED_WIDGETS"
  shows "place_widget tk x y s = s"
  using assms by (simp add: place_widget_def make_widget_unsupported)

lemma place_widget_supported:
  assumes "active_widget s = Some wt" "wt \<in> set SUPPORTED_WIDGETS"
  shows "widgets (place_widget tk x y s) = widgets s @ [next_ref s]"
    and "next_ref (place_widget tk x y s) = Suc (next_ref s)"
    and "undo_stack (place_widget tk x y s) = undo_stack s @ [Create (next_ref s)]"
    and "redo_stack (place_widget tk x y s) = []"
    and "q \<noteq> next_ref s \<Longrightarrow> heap (place_widget tk x y s) q = heap s q"
    and "widget_type (heap (place_widget tk x y s) (next_ref s)) = wt"
    and "dw_x (heap (place_widget tk x y s) (next_ref s)) = snap x"
    and "dw_y (heap (place_widget tk x y s) (next_ref s)) = snap y"
proof -
  from assms(2) obtain w where w: "make_widget tk wt = Some w"
    using make_widget_supported by blast
  have ne: "wt \<noteq> []"
    using assms(2) by (rule supported_not_empty)
  have eq: "place_widget tk x y s =
      (push_undo (Create (next_ref s))
         ((snd (new_DraggableWidget w wt (snap x) (snap y) s))
            \<lparr>widgets := widgets s @ [next_ref s]\<rparr>))\<lparr>active_widget := None\<rparr>"
    using assms(1) w ne
    by (simp add: place_widget_def new_DraggableWidget_def update_appearance_def Let_def)
  show "widgets (place_widget tk x y s) = widgets s @ [next_ref s]"
    and "next_ref (place_widget tk x y s) = Suc (next_ref s)"
    and "undo_stack (place_widget tk x y s) = undo_stack s @ [Create (next_ref s)]"
    and "redo_stack (place_widget tk x y s) = []"
    and "q \<noteq> next_ref s \<Longrightarrow> heap (place_widget tk x y s) q = heap s q"
    and "widget_type (heap (place_widget tk x y s) (next_ref s)) = wt"
    and "dw_x (heap (place_widget tk x y s) (next_ref s)) = snap x"
    and "dw_y (heap (place_widget tk x y s) (next_ref s)) = snap y"
    by (simp_all add: eq push_undo_def new_DraggableWidget_def update_appearance_def Let_def)
qed


lemma load_widget_unsupported:
  assumes "wd_type e \<notin> set SUPPORTED_WIDGETS"
  shows "widgets (load_widget tk e s) = widgets s"
    and "next_ref (load_widget tk e s) = next_ref s"
    and "undo_stack (load_widget tk e s) = undo_stack s"
    and "redo_stack (load_widget tk e s) = redo_stack s"
    and "widget_type (heap (load_widget tk e s) q) = widget_type (heap s q)"
    and "dw_x (heap (load_widget tk e s) q) = dw_x (heap s q)"
    and "dw_y (heap (load_widget tk e s) q) = dw_y (heap s q)"
  using assms
  by (simp_all add: load_widget_def place_widget_unsupported Let_def)

lemma load_widget_supported:
  assumes "wd_type e \<in> set SUPPORTED_WIDGETS"
  shows "widgets (load_widget tk e s) = widgets s @ [next_ref s]"
    and "next_ref (load_widget tk e s) = Suc (next_ref s)"
    and "undo_stack (load_widget tk e s) = undo_stack s @ [Create (next_ref s)]"
    and "redo_stack (load_widget tk e s) = []"
    and "q \<noteq> next_ref s \<Longrightarrow> heap (load_widget tk e s) q = heap s q"
    and "widget_type (heap (load_widget tk e s) (next_ref s)) = wd_type e"
    and "dw_x (heap (load_widget tk e s) (next_ref s)) = snap (wd_x e)"
    and "dw_y (heap (load_widget tk e s) (next_ref s)) = snap (wd_y e)"
proof -
  let ?a = "s\<lparr>active_widget := Some (wd_type e)\<rparr>"
  have act: "active_widget ?a = Some (wd_type e)"
    by simp
  note pw = place_widget_supported [OF act assms, where tk = tk and x = "wd_x e" and y = "wd_y e"]
  show "widgets (load_widget tk e s) = widgets s @ [next_ref s]"
    and "next_ref (load_widget tk e s) = Suc (next_ref s)"
    and "undo_stack (load_widget tk e s) = undo_stack s @ [Create (next_ref s)]"
    and "redo_stack (load_widget tk e s) = []"
    and "q \<noteq> next_ref s \<Longrightarrow> heap (load_widget tk e s) q = heap s q"
    and "widget_type (heap (load_widget tk e s) (next_ref s)) = wd_type e"
    and "dw_x (heap (load_widget tk e s) (next_ref s)) = snap (wd_x e)"
    and "dw_y (heap (load_widget tk e s) (next_ref s)) = snap (wd_y e)"
    using pw by (simp_all add: load_widget_def Let_def)
qed

lemma layout_cong:
  assumes "widgets t = widgets s"
    and "\<And>q. widget_type (heap t q) = widget_type (heap s q)"
    and "\<And>q. dw_x (heap t q) = dw_x (heap s q)"
    and "\<And>q. dw_y (heap t q) = dw_y (heap s q)"
  shows "layout t = layout s"
  using assms by (simp add: layout_def)

lemma load_widget_step:
  assumes "refs_allocated s"
  shows "refs_allocated (load_widget tk e s) \<and>
         layout (load_widget tk e s) = layout s @ loaded_layout [e] \<and>
         (\<exists>new. widgets (load_widget tk e s) = widgets s @ new \<and>
                undo_stack (load_widget tk e s) = undo_stack s @ map Create new \<and>
                (redo_stack (load_widget tk e s) = [] \<or>
                 new = [] \<and> redo_stack (load_widget tk e s) = redo_stack s))"
proof (cases "wd_type e \<in> set SUPPORTED_WIDGETS")
  case True
  note lw = load_widget_supported [OF True, where tk = tk and s = s]
  have old: "heap (load_widget tk e s) q = heap s q" if "q \<in> set (widgets s)" for q
  proof -
    from assms that have "q < next_ref s"
      by (simp add: refs_allocated_def list_all_iff)
    then show ?thesis
      by (simp add: lw(5))
  qed
  have "refs_allocated (load_widget tk e s)"
    using assms by (auto simp add: refs_allocated_def list_all_iff lw(1,2))
  moreover have "layout (load_widget tk e s) = layout s @ loaded_layout [e]"
    using True by (simp add: layout_def loaded_layout_def lw old)
  moreover have "widgets (load_widget tk e s) = widgets s @ [next_ref s] \<and>
      undo_stack (load_widget tk e s) = undo_stack s @ map Create [next_ref s] \<and>
      redo_stack (load_widget tk e s) = []"
    by (simp add: lw)
  ultimately show ?thesis
    by blast
next
  case False
  note lw = load_widget_unsupported [OF False, where tk = tk and s = s]
  have "refs_allocated (load_widget tk e s)"
    using assms by (simp add: refs_allocated_def lw)
  moreover have "layout (load_widget tk e s) = layout s"
    by (rule layout_cong) (simp_all add: lw)
  then have "layout (load_widget tk e s) = layout s @ loaded_layout [e]"
    using False by (simp add: loaded_layout_def)
  moreover have "widgets (load_widget tk e s) = widgets s @ [] \<and>
      undo_stack (load_widget tk e s) = undo_stack s @ map Create [] \<and>
      redo_stack (load_widget tk e s) = redo_stack s"
    by (simp add: lw)
  ultimately show ?thesis
    by blast
qed

lemma loaded_layout_Cons: "loaded_layout (e # es) = loaded_layout [e] @ loaded_layout es"
  by (simp add: loaded_layout_def)

lemma load_widgets_fold:
  assumes "refs_allocated s"
  shows "layout (fold (load_widget tk) es s) = layout s @ loaded_layout es \<and>
         (\<exists>new. widgets (fold (load_widget tk) es s) = widgets s @ new \<and>
                undo_stack (fold (load_widget tk) es s) = undo_stack s @ map Create new \<and>
                (redo_stack (fold (load_widget tk) es s) = [] \<or>
                 new = [] \<and> redo_stack (fold (load_widget tk) es s) = redo_stack s))"
  using assms
proof (induction es arbitrary: s)
  case Nil
  then show ?case
    by (simp add: loaded_layout_def)
next
  case (Cons e es)
  let ?t = "load_widget tk e s"
  from load_widget_step [OF Cons.prems, where tk = tk and e = e]
  obtain new1 where inv: "refs_allocated ?t"
    and lay: "layout ?t = layout s @ loaded_layout [e]"
    and w1: "widgets ?t = widgets s @ new1"
    and u1: "undo_stack ?t = undo_stack s @ map Create new1"
    and r1: "redo_stack ?t = [] \<or> new1 = [] \<and> redo_stack ?t = redo_stack s"
    by blast
  from Cons.IH [OF inv]
  obtain new2 where lay2: "layout (fold (load_widget tk) es ?t) = layout ?t @ loaded_layout es"
    and w2: "widgets (fold (load_widget tk) es ?t) = widgets ?t @ new2"
    and u2: "undo_stack (fold (load_widget tk) es ?t) = undo_stack ?t @ map Create new2"
    and r2: "redo_stack (fold (load_widget tk) es ?t) = [] \<or>
             new2 = [] \<and> redo_stack (fold (load_widget tk) es ?t) = redo_stack ?t"
    by blast
  have "layout (fold (load_widget tk) (e # es) s) = layout s @ loaded_layout (e # es)"
    using lay lay2 by (simp add: loaded_layout_Cons [of e es])
  moreover have "widgets (fold (load_widget tk) (e # es) s) = widgets s @ (new1 @ new2)"
    using w1 w2 by simp
  moreover have "undo_stack (fold (load_widget tk) (e # es) s)
      = undo_stack s @ map Create (new1 @ new2)"
    using u1 u2 by simp
  moreover have "redo_stack (fold (load_widget tk) (e # es) s) = [] \<or>
      new1 @ new2 = [] \<and> redo_stack (fold (load_widget tk) (e # es) s) = redo_stack s"
    using r1 r2 by auto
  ultimately show ?case
    by blast
qed

lemma clear_canvas_fields:
  "widgets (clear_canvas s) = []" "undo_stack (clear_canvas s) = []"
  "redo_stack (clear_canvas s) = []"
  by (simp_all add: clear_canvas_def)

lemma open_project_loaded:
  assumes "p \<noteq> []"
  shows "fst (open_project tk p (ReadOk d) s) = None"
    and "layout (snd (open_project tk p (ReadOk d) s)) = loaded_layout (doc_widgets d)"
    and "undo_stack (snd (open_project tk p (ReadOk d) s))
           = map Create (widgets (snd (open_project tk p (ReadOk d) s)))"
    and "redo_stack (snd (open_project tk p (ReadOk d) s)) = []"
proof -
  let ?c = "(clear_canvas s)\<lparr>current_file := Some p\<rparr>"
  have inv: "refs_allocated ?c"
    by (simp add: refs_allocated_def clear_canvas_fields)
  have res: "open_project tk p (ReadOk d) s = (None, fold (load_widget tk) (doc_widgets d) ?c)"
    using assms by (simp add: open_project_def)
  from load_widgets_fold [OF inv, where tk = tk and es = "doc_widgets d"]
  obtain new where lay: "layout (fold (load_widget tk) (doc_widgets d) ?c)
        = layout ?c @ loaded_layout (doc_widgets d)"
    and w: "widgets (fold (load_widget tk) (doc_widgets d) ?c) = widgets ?c @ new"
    and u: "undo_stack (fold (load_widget tk) (doc_widgets d) ?c) = undo_stack ?c @ map Create new"
    and r: "redo_stack (fold (load_widget tk) (doc_widgets d) ?c) = [] \<or>
            new = [] \<and> redo_stack (fold (load_widget tk) (doc_widgets d) ?c) = redo_stack ?c"
    by blast
  show "fst (open_project tk p (ReadOk d) s) = None"
    by (simp add: res)
  show "layout (snd (open_project tk p (ReadOk d) s)) = loaded_layout (doc_widgets d)"
    using lay by (simp add: res layout_def clear_canvas_fields)
  show "undo_stack (snd (open_project tk p (ReadOk d) s))
           = map Create (widgets (snd (open_project tk p (ReadOk d) s)))"
    using w u by (simp add: res clear_canvas_fields)
  show "redo_stack (snd (open_project tk p (ReadOk d) s)) = []"
    using r by (auto simp add: res clear_canvas_fields)
qed




section \<open>History across a document switch\<close>

text \<open>
  C10: a new project (confirmed, or with nothing to lose) leaves both stacks empty, so
  undo and redo do nothing. A load leaves the redo stack empty, so redo does nothing,
  and its undo stack holds exactly the creations of the widgets it loaded, none of the
  former history.
\<close>

theorem history_after_document_switch:
  "(widgets s = [] \<or> answer \<longrightarrow>
      undo_stack (new_project answer s) = [] \<and> redo_stack (new_project answer s) = [] \<and>
      undo (new_project answer s) = new_project answer s \<and>
      redo (new_project answer s) = new_project answer s) \<and>
   (p \<noteq> [] \<longrightarrow>
      redo_stack (snd (open_project tk p (ReadOk d) s)) = [] \<and>
      undo_stack (snd (open_project tk p (ReadOk d) s))
        = map Create (widgets (snd (open_project tk p (ReadOk d) s))) \<and>
      redo (snd (open_project tk p (ReadOk d) s)) = snd (open_project tk p (ReadOk d) s))"
proof (intro conjI impI)
  assume a: "widgets s = [] \<or> answer"
  then have eq: "new_project answer s = (clear_canvas s)\<lparr>current_file := None\<rparr>"
    by (auto simp add: new_project_def)
  show u: "undo_stack (new_project answer s) = []"
    by (simp add: eq clear_canvas_fields)
  show r: "redo_stack (new_project answer s) = []"
    by (simp add: eq clear_canvas_fields)
  show "undo (new_project answer s) = new_project answer s"
    using u by (simp add: undo_def)
  show "redo (new_project answer s) = new_project answer s"
    using r by (simp add: redo_def)
next
  assume p: "p \<noteq> []"
  show r: "redo_stack (snd (open_project tk p (ReadOk d) s)) = []"
    by (rule open_project_loaded(4) [OF p])
  show "undo_stack (snd (open_project tk p (ReadOk d) s))
        = map Create (widgets (snd (open_project tk p (ReadOk d) s)))"
    by (rule open_project_loaded(3) [OF p])
  show "redo (snd (open_project tk p (ReadOk d) s)) = snd (open_project tk p (ReadOk d) s)"
    using r by (simp add: redo_def)
qed

text \<open>A new project and a load over the two sample widgets.\<close>

theorem history_after_document_switch_witness:
  "(widgets two_placed = [] \<or> True) \<and> ''layout.json'' \<noteq> [] \<and>
   undo_stack two_placed = [Create 0, Create 1] \<and>
   undo_stack (new_project True two_placed) = [] \<and>
   redo_stack (new_project True two_placed) = [] \<and>
   undo_stack (snd (open_project demo_toolkit ''layout.json'' (ReadOk mixed_doc) two_placed))
     = [Create 2] \<and>
   redo_stack (snd (open_project demo_toolkit ''layout.json'' (ReadOk mixed_doc) two_placed)) = []"
proof -
  have before: "undo_stack two_placed = [Create 0, Create 1]"
    by (simp add: mixed_doc_def sample_defs model_defs)
  have loaded:
    "widgets (snd (open_project demo_toolkit ''layout.json'' (ReadOk mixed_doc) two_placed)) = [2]"
    by (simp add: mixed_doc_def sample_defs load_defs model_defs)
  from history_after_document_switch
    [where s = two_placed and answer = True and p = "''layout.json''" and tk = demo_toolkit
       and d = mixed_doc]
    before loaded
  show ?thesis
    by simp
qed

text \<open>
  The claim of C10 says the undo stack is empty after a load. Loading the sample file
  into the initial state leaves the creation of the label on it, and undo removes the
  label.
\<close>

theorem load_keeps_create_history_counterexample:
  "undo_stack (snd (open_project demo_toolkit ''layout.json'' (ReadOk mixed_doc) init_builder))
     = [Create 0] \<and>
   widgets (snd (open_project demo_toolkit ''layout.json'' (ReadOk mixed_doc) init_builder)) = [0] \<and>
   widgets (undo (snd (open_project demo_toolkit ''layout.json'' (ReadOk mixed_doc) init_builder)))
     = []"
  by (simp add: mixed_doc_def sample_defs load_defs model_defs)

section \<open>Saving and loading\<close>







section \<open>Generated source\<close>

text \<open>
  C5: the claim says that every placement statement follows a construction statement,
  widgets without a dedicated template getting a generic stub. The loop has templates for
  \<^verbatim>\<open>Button\<close>, \<^verbatim>\<open>Label\<close> and \<^verbatim>\<open>Entry\<close> and no other branch (line 802: "Add other widget
  types as needed..."): for a widget of any other type the lines appended are the
  placement statement and the blank line, with no construction statement.
\<close>

theorem placement_without_construction:
  assumes "widget_type dw \<noteq> ''Button''" and "widget_type dw \<noteq> ''Label''"
    and "widget_type dw \<noteq> ''Entry''"
  shows "widget_lines i dw = Some [place_line (''widget_'' @ str_nat i) dw, []]"
  using assms by (simp add: widget_lines_def Let_def)

text \<open>The code generated for a document holding one text widget.\<close>

theorem placement_without_construction_witness:
  "widget_type (heap text_placed 0) = ''Text'' \<and>
   generated_lines text_placed
     = Some (prologue @ [''    widget_0.place(x=20, y=60)'', []] @ epilogue)"
proof -
  have ty: "widget_type (heap text_placed 0) = ''Text''"
    by (simp add: text_placed_def sample_defs model_defs)
  have pos: "dw_x (heap text_placed 0) = 20" "dw_y (heap text_placed 0) = 60"
    and doc: "widgets text_placed = [0]"
    by (simp_all add: text_placed_def sample_defs model_defs)
  have line: "place_line (''widget_'' @ str_nat 0) (heap text_placed 0)
      = ''    widget_0.place(x=20, y=60)''"
    by (simp add: place_line_def str_int_def digit_char_def pos)
  from placement_without_construction [of "heap text_placed 0" 0] ty line doc
  show ?thesis
    by (simp add: generated_lines_def)
qed

section \<open>Grid alignment of reachable states\<close>




























end
